theory Spec2Isabelle
  imports Main "HOL-Library.Sublist"
begin

section \<open>The listbox state machine of packages/listbox/src/machine.ts\<close>

text \<open>
  The machine is a configuration object handed to \<open>createMachine\<close> of the
  finite-state-machine library: five states, twenty-one event types, and for every state
  a table from event types to transition descriptors (target, guard, actions).  The
  embedding keeps that shape: the enumerations are datatypes, the context and the events
  are records, guards and actions are HOL functions with the names of the source, the
  tables are maps built with the same spreads, and one interpreter runs them.
\<close>

subsection \<open>States and events\<close>

datatype ListboxStates = Idle | Navigating | NavigatingWithKeys | Searching | Interacting

datatype ListboxEvents =
    ButtonMouseDown | ButtonMouseUp | Blur | ClearNavSelection | ClearTypeahead
  | GetDerivedData | KeyDownEscape | KeyDownEnter | KeyDownSpace | KeyDownNavigate
  | KeyDownSearch | KeyDownTab | KeyDownShiftTab | Navigate | OptionMouseEnter
  | ValueChange | OptionStartClick | OptionFinishClick | PopoverPointerDown
  | PopoverPointerUp | UpdateAfterTypeahead

subsection \<open>Data\<close>

text \<open>
  Modelled from the spec: the type declarations of \<open>./types\<close> (\<open>ListboxStateData\<close>,
  \<open>ListboxEvent\<close>, the descendant descriptor) are not part of the source file; the
  records below follow the data model of the specification and the fields the source
  reads.  Element handles and documents are identified by numbers; \<open>None\<close> stands for
  \<open>null\<close> and \<open>undefined\<close>, which the source never tells apart (\<open>!= null\<close>, \<open>&&\<close>,
  \<open>||\<close>).  The type \<open>'v\<close> is the type of option values.
\<close>

type_synonym Element = nat
type_synonym Document = nat

record Refs =
  button :: "Element option"
  input :: "Element option"
  list :: "Element option"
  popover :: "Element option"

text \<open>An entry of \<open>options\<close>: \<open>{element, value, label, disabled}\<close>.\<close>

record 'v Descendant =
  element :: "Element option"
  ovalue :: 'v
  label :: string
  odisabled :: bool

record 'v ListboxStateData =
  "value" :: "'v option"
  refs :: Refs
  options :: "'v Descendant list"
  navigationValue :: "'v option"
  typeaheadQuery :: "string option"

text \<open>
  The payload of \<open>GetDerivedData\<close> is a partial context: every field may be absent
  (\<open>None\<close>) or present with a value (\<open>Some\<close>); its \<open>refs\<close> field is a partial
  \<open>Refs\<close> in the same way.
\<close>

record RefsPatch =
  pbutton :: "Element option option"
  pinput :: "Element option option"
  plist :: "Element option option"
  ppopover :: "Element option option"

record 'v DataPatch =
  pvalue :: "'v option option"
  prefs :: "RefsPatch option"
  poptions :: "'v Descendant list option"
  pnavigationValue :: "'v option option"
  ptypeaheadQuery :: "string option option"

text \<open>
  An event is an object with a \<open>type\<close> and the fields the actions and guards read.
  The source types the event as \<open>any\<close> in most actions and reads \<open>event.value\<close>,
  \<open>event.query\<close>, \<open>event.disabled\<close>, \<open>event.callback\<close>, \<open>event.data\<close>,
  \<open>event.relatedTarget\<close> and \<open>event.refs\<close> whatever the type is, so the record carries
  them all; a field an event does not have is \<open>None\<close>, the empty string, \<open>False\<close> or
  the empty patch.  \<open>callback\<close> tells whether the caller supplied a callback; calling it
  is recorded as an effect.  \<open>erefs\<close> are the handles the host adapter attaches to every
  event it sends.
\<close>

record 'v ListboxEvent =
  etype :: ListboxEvents
  erefs :: Refs
  relatedTarget :: "Element option"
  evalue :: "'v option"
  query :: string
  disabled :: bool
  callback :: bool
  data :: "'v DataPatch"

text \<open>
  What the guards read from the browser: the global \<open>document\<close>, the owner document of
  an element (\<open>getOwnerDocument\<close> of the utilities package, not part of the source file),
  the active element of a document, and \<open>Node.contains\<close>.  They are parameters of the
  model.
\<close>

record DOM =
  document :: Document
  getOwnerDocument :: "Element \<Rightarrow> Document option"
  activeElement :: "Document \<Rightarrow> Element option"
  contains :: "Element \<Rightarrow> Element \<Rightarrow> bool"

text \<open>
  The effects an action has outside the context: a call of the caller's callback with its
  argument, a synchronous \<open>focus()\<close> on an element, and a \<open>focus()\<close> scheduled with
  \<open>requestAnimationFrame\<close>.  The diagnostic \<open>console.log\<close> of \<open>optionIsSelectable\<close> is
  left out.
\<close>

datatype 'v effect = Callback "'v option" | Focus Element | FocusNextFrame Element

subsection \<open>Strings\<close>

text \<open>
  \<open>toLowerCase\<close> on the letters A to Z; other characters are left as they are (the
  model's strings are byte strings, so this is the ASCII part of the JavaScript function).
\<close>

definition toLowerCase_char :: "char \<Rightarrow> char" where
  "toLowerCase_char c =
     (case map_of (zip ''ABCDEFGHIJKLMNOPQRSTUVWXYZ'' ''abcdefghijklmnopqrstuvwxyz'') c of
        None \<Rightarrow> c
      | Some l \<Rightarrow> l)"

definition toLowerCase :: "string \<Rightarrow> string" where
  "toLowerCase s = map toLowerCase_char s"

definition startsWith :: "string \<Rightarrow> string \<Rightarrow> bool" where
  "startsWith s q = prefix q s"

subsection \<open>Actions and conditions\<close>

definition clearNavigationValue ::
  "'v ListboxStateData \<Rightarrow> 'v ListboxEvent \<Rightarrow> 'v ListboxStateData" where
  "clearNavigationValue d event = d\<lparr>navigationValue := None\<rparr>"

definition clearTypeaheadQuery ::
  "'v ListboxStateData \<Rightarrow> 'v ListboxEvent \<Rightarrow> 'v ListboxStateData" where
  "clearTypeaheadQuery d event = d\<lparr>typeaheadQuery := None\<rparr>"

definition assignValue ::
  "'v ListboxStateData \<Rightarrow> 'v ListboxEvent \<Rightarrow> 'v ListboxStateData" where
  "assignValue d event = d\<lparr>value := evalue event\<rparr>"

definition navigate ::
  "'v ListboxStateData \<Rightarrow> 'v ListboxEvent \<Rightarrow> 'v ListboxStateData" where
  "navigate d event = d\<lparr>navigationValue := evalue event\<rparr>"

definition navigateFromCurrentValue ::
  "'v ListboxStateData \<Rightarrow> 'v ListboxEvent \<Rightarrow> 'v ListboxStateData" where
  "navigateFromCurrentValue d event = d\<lparr>navigationValue := value d\<rparr>"

text \<open>\<open>(button && getOwnerDocument(button)) || document\<close>, for any handle.\<close>

definition ownerDocumentOr :: "DOM \<Rightarrow> Element option \<Rightarrow> Document" where
  "ownerDocumentOr env el =
     (case el of
        None \<Rightarrow> document env
      | Some b \<Rightarrow> (case getOwnerDocument env b of None \<Rightarrow> document env | Some doc \<Rightarrow> doc))"

definition listboxLostFocus ::
  "DOM \<Rightarrow> 'v ListboxStateData \<Rightarrow> 'v ListboxEvent \<Rightarrow> bool" where
  "listboxLostFocus env d event =
     (if etype event = Blur then
        (let ownerDocument = ownerDocumentOr env (button (erefs event)) in
           activeElement env ownerDocument \<noteq> list (erefs event) \<and>
           (case popover (erefs event) of
              None \<Rightarrow> False
            | Some p \<Rightarrow>
                \<not> (case (case relatedTarget event of
                            None \<Rightarrow> activeElement env ownerDocument
                          | Some r \<Rightarrow> Some r) of
                       None \<Rightarrow> False
                     | Some x \<Rightarrow> contains env p x)))
      else False)"

definition optionIsActive ::
  "DOM \<Rightarrow> 'v ListboxStateData \<Rightarrow> 'v ListboxEvent \<Rightarrow> bool" where
  "optionIsActive env d event =
     (let ownerDocument = ownerDocumentOr env (popover (erefs event)) in
        find (\<lambda>opt. element opt = activeElement env ownerDocument) (options d) \<noteq> None)"

definition getNavigationNodeFromValue ::
  "'v ListboxStateData \<Rightarrow> 'v option \<Rightarrow> Element option" where
  "getNavigationNodeFromValue d v =
     (case find (\<lambda>opt. v = Some (ovalue opt)) (options d) of
        None \<Rightarrow> None
      | Some opt \<Rightarrow> element opt)"

definition focusList :: "'v ListboxStateData \<Rightarrow> 'v ListboxEvent \<Rightarrow> 'v effect list" where
  "focusList d event = (case list (erefs event) of None \<Rightarrow> [] | Some l \<Rightarrow> [Focus l])"

definition focusNavOption :: "'v ListboxStateData \<Rightarrow> 'v ListboxEvent \<Rightarrow> 'v effect list" where
  "focusNavOption d event =
     (case getNavigationNodeFromValue d (navigationValue d) of
        None \<Rightarrow> []
      | Some node \<Rightarrow> [FocusNextFrame node])"

definition focusButton :: "'v ListboxStateData \<Rightarrow> 'v ListboxEvent \<Rightarrow> 'v effect list" where
  "focusButton d event = (case button (erefs event) of None \<Rightarrow> [] | Some b \<Rightarrow> [Focus b])"

definition optionIsSelectable :: "'v ListboxStateData \<Rightarrow> 'v ListboxEvent \<Rightarrow> bool" where
  "optionIsSelectable d event = (if disabled event then False else navigationValue d \<noteq> None)"

definition selectOption :: "'v ListboxStateData \<Rightarrow> 'v ListboxEvent \<Rightarrow> 'v effect list" where
  "selectOption d event = (if callback event then [Callback (evalue event)] else [])"

definition setTypeahead ::
  "'v ListboxStateData \<Rightarrow> 'v ListboxEvent \<Rightarrow> 'v ListboxStateData" where
  "setTypeahead d event =
     d\<lparr>typeaheadQuery :=
         Some ((case typeaheadQuery d of None \<Rightarrow> [] | Some q \<Rightarrow> q) @ query event)\<rparr>"

definition clearTypeahead ::
  "'v ListboxStateData \<Rightarrow> 'v ListboxEvent \<Rightarrow> 'v ListboxStateData" where
  "clearTypeahead d event = d\<lparr>typeaheadQuery := Some []\<rparr>"

definition findOptionFromTypeahead ::
  "'v Descendant list \<Rightarrow> string \<Rightarrow> 'v Descendant option" where
  "findOptionFromTypeahead opts string =
     (if string = [] then None
      else find (\<lambda>opt. \<not> odisabled opt \<and> label opt \<noteq> [] \<and>
                        startsWith (toLowerCase (label opt)) (toLowerCase string)) opts)"

text \<open>
  \<open>setValueFromTypeahead\<close> is an assignment to \<open>value\<close> whose function also calls the
  event's callback, so it returns the new context and the effect.
\<close>

definition setValueFromTypeahead ::
  "'v ListboxStateData \<Rightarrow> 'v ListboxEvent \<Rightarrow> 'v ListboxStateData \<times> 'v effect list" where
  "setValueFromTypeahead d event =
     (if etype event = UpdateAfterTypeahead \<and> query event \<noteq> [] then
        (case findOptionFromTypeahead (options d) (query event) of
           None \<Rightarrow> (d\<lparr>value := value d\<rparr>, [])
         | Some match \<Rightarrow>
             if \<not> odisabled match
             then (d\<lparr>value := Some (ovalue match)\<rparr>,
                   if callback event then [Callback (Some (ovalue match))] else [])
             else (d\<lparr>value := value d\<rparr>, []))
      else (d\<lparr>value := value d\<rparr>, []))"

definition setNavSelectionFromTypeahead ::
  "'v ListboxStateData \<Rightarrow> 'v ListboxEvent \<Rightarrow> 'v ListboxStateData" where
  "setNavSelectionFromTypeahead d event =
     d\<lparr>navigationValue :=
         (if etype event = UpdateAfterTypeahead \<and> query event \<noteq> [] then
            (case findOptionFromTypeahead (options d) (query event) of
               None \<Rightarrow> navigationValue d
             | Some match \<Rightarrow>
                 if \<not> odisabled match then Some (ovalue match) else navigationValue d)
          else navigationValue d)\<rparr>"

text \<open>
  The assignment of \<open>GetDerivedData\<close>:
  \<open>{...ctx, ...event.data, refs: {...ctx.refs, ...(event.data.refs || {})}}\<close>.
  \<open>spread old new\<close> is one key of \<open>{...old, ...new}\<close>.
\<close>

definition spread :: "'a \<Rightarrow> 'a option \<Rightarrow> 'a" where
  "spread old new = (case new of None \<Rightarrow> old | Some x \<Rightarrow> x)"

definition emptyRefsPatch :: RefsPatch where
  "emptyRefsPatch = \<lparr>pbutton = None, pinput = None, plist = None, ppopover = None\<rparr>"

definition getDerivedData ::
  "'v ListboxStateData \<Rightarrow> 'v ListboxEvent \<Rightarrow> 'v ListboxStateData" where
  "getDerivedData ctx event =
     (let r = (case prefs (data event) of None \<Rightarrow> emptyRefsPatch | Some rp \<Rightarrow> rp) in
        \<lparr>value = spread (value ctx) (pvalue (data event)),
         refs = \<lparr>button = spread (button (refs ctx)) (pbutton r),
                 input = spread (input (refs ctx)) (pinput r),
                 list = spread (list (refs ctx)) (plist r),
                 popover = spread (popover (refs ctx)) (ppopover r)\<rparr>,
         options = spread (options ctx) (poptions (data event)),
         navigationValue = spread (navigationValue ctx) (pnavigationValue (data event)),
         typeaheadQuery = spread (typeaheadQuery ctx) (ptypeaheadQuery (data event))\<rparr>)"

subsection \<open>Transition descriptors and the interpreter\<close>

text \<open>
  Modelled from the spec: the interpreter of the state-machine library (\<open>createMachine\<close>,
  \<open>interpret\<close>, \<open>assign\<close>) is an imported package.  As the specification has it, the
  transitions declared for the current state and the event's type are tried in order and
  the first whose guard holds on the current context wins; its assignments are applied to
  the context in the order of the action list, the other actions are then run with the
  new context, and the machine moves to the target (the current state when none is
  given).  An event with no entry, or none whose guard holds, changes nothing.
\<close>

datatype 'v action =
    AssignAction "'v ListboxStateData \<Rightarrow> 'v ListboxEvent \<Rightarrow> 'v ListboxStateData \<times> 'v effect list"
  | ExecAction "'v ListboxStateData \<Rightarrow> 'v ListboxEvent \<Rightarrow> 'v effect list"

definition assign ::
  "('v ListboxStateData \<Rightarrow> 'v ListboxEvent \<Rightarrow> 'v ListboxStateData) \<Rightarrow> 'v action" where
  "assign f = AssignAction (\<lambda>d event. (f d event, []))"

record 'v TransitionConfig =
  target :: "ListboxStates option"
  actions :: "'v action list"
  cond :: "(DOM \<Rightarrow> 'v ListboxStateData \<Rightarrow> 'v ListboxEvent \<Rightarrow> bool) option"

fun runAssigns ::
  "'v action list \<Rightarrow> 'v ListboxStateData \<Rightarrow> 'v ListboxEvent
     \<Rightarrow> 'v ListboxStateData \<times> 'v effect list" where
  "runAssigns [] ctx event = (ctx, [])"
| "runAssigns (AssignAction f # acts) ctx event =
     (case f ctx event of
        (ctx', fx) \<Rightarrow> (case runAssigns acts ctx' event of (ctx'', fx') \<Rightarrow> (ctx'', fx @ fx')))"
| "runAssigns (ExecAction g # acts) ctx event = runAssigns acts ctx event"

fun runExecs ::
  "'v action list \<Rightarrow> 'v ListboxStateData \<Rightarrow> 'v ListboxEvent \<Rightarrow> 'v effect list" where
  "runExecs [] ctx event = []"
| "runExecs (AssignAction f # acts) ctx event = runExecs acts ctx event"
| "runExecs (ExecAction g # acts) ctx event = g ctx event @ runExecs acts ctx event"

definition guardHolds ::
  "DOM \<Rightarrow> 'v ListboxStateData \<Rightarrow> 'v ListboxEvent \<Rightarrow> 'v TransitionConfig \<Rightarrow> bool" where
  "guardHolds env ctx event t = (case cond t of None \<Rightarrow> True | Some c \<Rightarrow> c env ctx event)"

subsection \<open>The transition tables\<close>

definition commonEvents :: "ListboxEvents \<rightharpoonup> 'v TransitionConfig list" where
  "commonEvents =
     [GetDerivedData \<mapsto> [\<lparr>target = None, actions = [assign getDerivedData], cond = None\<rparr>],
      ValueChange \<mapsto>
        [\<lparr>target = None, actions = [assign assignValue, ExecAction selectOption],
          cond = None\<rparr>]]"

definition commit :: "'v TransitionConfig" where
  "commit =
     \<lparr>target = Some Idle,
      actions = [assign assignValue, ExecAction selectOption, ExecAction focusButton,
                 assign clearTypeaheadQuery],
      cond = Some (\<lambda>env. optionIsSelectable)\<rparr>"

definition openEvents :: "ListboxEvents \<rightharpoonup> 'v TransitionConfig list" where
  "openEvents =
     [ClearNavSelection \<mapsto>
        [\<lparr>target = None, actions = [assign clearNavigationValue, ExecAction focusList],
          cond = None\<rparr>],
      OptionFinishClick \<mapsto> [commit],
      KeyDownEnter \<mapsto> [commit],
      KeyDownSpace \<mapsto> [commit],
      ButtonMouseDown \<mapsto>
        [\<lparr>target = Some Idle, actions = [ExecAction focusButton], cond = None\<rparr>],
      KeyDownEscape \<mapsto>
        [\<lparr>target = Some Idle, actions = [ExecAction focusButton], cond = None\<rparr>]]"

text \<open>
  The three entries of a \<open>Blur\<close> cascade; only the target of the second differs between
  the states.
\<close>

definition blurCascade :: "ListboxStates \<Rightarrow> 'v TransitionConfig list" where
  "blurCascade active =
     [\<lparr>target = Some Idle, actions = [assign clearTypeaheadQuery],
       cond = Some listboxLostFocus\<rparr>,
      \<lparr>target = Some active, actions = [], cond = Some optionIsActive\<rparr>,
      \<lparr>target = Some Interacting, actions = [assign clearTypeaheadQuery], cond = None\<rparr>]"

definition keyDownNavigate :: "'v TransitionConfig" where
  "keyDownNavigate =
     \<lparr>target = Some NavigatingWithKeys,
      actions = [assign navigate, ExecAction focusNavOption, assign clearTypeaheadQuery],
      cond = None\<rparr>"

fun states :: "ListboxStates \<Rightarrow> (ListboxEvents \<rightharpoonup> 'v TransitionConfig list)" where
  "states Idle =
     commonEvents ++
     [ButtonMouseDown \<mapsto>
        [\<lparr>target = Some Navigating,
          actions = [assign navigateFromCurrentValue, ExecAction focusButton], cond = None\<rparr>],
      KeyDownSpace \<mapsto>
        [\<lparr>target = Some NavigatingWithKeys,
          actions = [assign navigateFromCurrentValue, ExecAction focusNavOption],
          cond = None\<rparr>],
      KeyDownSearch \<mapsto>
        [\<lparr>target = Some Idle, actions = [assign setTypeahead], cond = None\<rparr>],
      UpdateAfterTypeahead \<mapsto>
        [\<lparr>target = Some Idle, actions = [AssignAction setValueFromTypeahead], cond = None\<rparr>],
      ClearTypeahead \<mapsto>
        [\<lparr>target = Some Idle, actions = [assign clearTypeahead], cond = None\<rparr>],
      KeyDownNavigate \<mapsto> [keyDownNavigate]]"
| "states Interacting =
     commonEvents ++ openEvents ++
     [Blur \<mapsto> blurCascade Navigating,
      Navigate \<mapsto>
        [\<lparr>target = Some Navigating,
          actions = [assign navigate, ExecAction focusNavOption], cond = None\<rparr>],
      KeyDownNavigate \<mapsto> [keyDownNavigate]]"
| "states Navigating =
     commonEvents ++ openEvents ++
     [Blur \<mapsto> blurCascade Navigating,
      ButtonMouseUp \<mapsto>
        [\<lparr>target = None,
          actions = [ExecAction focusList, assign navigateFromCurrentValue,
                     ExecAction focusNavOption],
          cond = None\<rparr>],
      Navigate \<mapsto>
        [\<lparr>target = Some Navigating,
          actions = [assign navigate, ExecAction focusNavOption], cond = None\<rparr>],
      KeyDownNavigate \<mapsto> [keyDownNavigate],
      KeyDownSearch \<mapsto>
        [\<lparr>target = Some NavigatingWithKeys, actions = [assign setTypeahead], cond = None\<rparr>],
      UpdateAfterTypeahead \<mapsto>
        [\<lparr>target = None,
          actions = [assign setNavSelectionFromTypeahead, ExecAction focusNavOption],
          cond = None\<rparr>],
      ClearTypeahead \<mapsto> [\<lparr>target = None, actions = [assign clearTypeahead], cond = None\<rparr>]]"
| "states NavigatingWithKeys =
     commonEvents ++ openEvents ++
     [Blur \<mapsto> blurCascade NavigatingWithKeys,
      Navigate \<mapsto>
        [\<lparr>target = Some Navigating,
          actions = [assign navigate, ExecAction focusNavOption], cond = None\<rparr>],
      KeyDownNavigate \<mapsto> [keyDownNavigate],
      KeyDownSearch \<mapsto>
        [\<lparr>target = Some NavigatingWithKeys, actions = [assign setTypeahead], cond = None\<rparr>],
      UpdateAfterTypeahead \<mapsto>
        [\<lparr>target = None,
          actions = [assign setNavSelectionFromTypeahead, ExecAction focusNavOption],
          cond = None\<rparr>],
      ClearTypeahead \<mapsto> [\<lparr>target = None, actions = [assign clearTypeahead], cond = None\<rparr>]]"
| "states Searching =
     commonEvents ++ openEvents ++
     [Blur \<mapsto> blurCascade Searching,
      Navigate \<mapsto>
        [\<lparr>target = Some Navigating,
          actions = [assign navigate, ExecAction focusNavOption, assign clearTypeaheadQuery],
          cond = None\<rparr>],
      KeyDownNavigate \<mapsto> [keyDownNavigate],
      KeyDownSearch \<mapsto>
        [\<lparr>target = Some NavigatingWithKeys, actions = [assign setTypeahead], cond = None\<rparr>],
      UpdateAfterTypeahead \<mapsto>
        [\<lparr>target = None,
          actions = [assign setNavSelectionFromTypeahead, ExecAction focusNavOption],
          cond = None\<rparr>],
      ClearTypeahead \<mapsto> [\<lparr>target = None, actions = [assign clearTypeahead], cond = None\<rparr>]]"

text \<open>
  One event delivered to the machine in state \<open>s\<close> with context \<open>ctx\<close>: the new state,
  the new context and the effects in the order they happen.
\<close>

definition send ::
  "DOM \<Rightarrow> ListboxStates \<times> 'v ListboxStateData \<Rightarrow> 'v ListboxEvent
     \<Rightarrow> (ListboxStates \<times> 'v ListboxStateData) \<times> 'v effect list" where
  "send env st event =
     (case st of
        (s, ctx) \<Rightarrow>
          (case states s (etype event) of
             None \<Rightarrow> ((s, ctx), [])
           | Some ts \<Rightarrow>
               (case find (guardHolds env ctx event) ts of
                  None \<Rightarrow> ((s, ctx), [])
                | Some t \<Rightarrow>
                    (case runAssigns (actions t) ctx event of
                       (ctx', fx) \<Rightarrow>
                         ((spread s (target t), ctx'),
                          fx @ runExecs (actions t) ctx' event)))))"

text \<open>A sequence of events, each with the browser state it meets.\<close>

fun sendAll ::
  "ListboxStates \<times> 'v ListboxStateData \<Rightarrow> (DOM \<times> 'v ListboxEvent) list
     \<Rightarrow> (ListboxStates \<times> 'v ListboxStateData) \<times> 'v effect list" where
  "sendAll st [] = (st, [])"
| "sendAll st ((env, event) # rest) =
     (case send env st event of
        (st', fx) \<Rightarrow> (case sendAll st' rest of (st'', fx') \<Rightarrow> (st'', fx @ fx')))"

text \<open>The initial state and context of \<open>createListboxMachine({value})\<close>.\<close>

definition createListboxMachine :: "'v option \<Rightarrow> ListboxStates \<times> 'v ListboxStateData" where
  "createListboxMachine v =
     (Idle,
      \<lparr>value = v,
       refs = \<lparr>button = None, input = None, list = None, popover = None\<rparr>,
       options = [],
       navigationValue = None,
       typeaheadQuery = None\<rparr>)"

subsection \<open>The typeahead match in the words of the specification\<close>

text \<open>
  The specification describes a qualifying option as one that is not disabled and whose
  label, case-insensitively, starts with the query.  This predicate follows those words;
  the predicate inside \<open>findOptionFromTypeahead\<close> follows the source.
\<close>

definition spec_qualifies :: "string \<Rightarrow> 'v Descendant \<Rightarrow> bool" where
  "spec_qualifies q opt =
     (\<not> odisabled opt \<and> prefix (toLowerCase q) (toLowerCase (label opt)))"

subsection \<open>A concrete listbox\<close>

text \<open>
  A listbox with a button (element 1), an input (2), a list (3) and a popover (4) that
  contains the list and the two option elements 10 and 11; element 99 lies outside the
  popover.  The options are Apple (value 1) and Banana (value 2).  The browser state is
  given by the element that has the focus.
\<close>

definition exampleRefs :: Refs where
  "exampleRefs = \<lparr>button = Some 1, input = Some 2, list = Some 3, popover = Some 4\<rparr>"

definition exampleOptions :: "nat Descendant list" where
  "exampleOptions =
     [\<lparr>element = Some 10, ovalue = 1, label = ''Apple'', odisabled = False\<rparr>,
      \<lparr>element = Some 11, ovalue = 2, label = ''Banana'', odisabled = False\<rparr>]"

definition exampleContext :: "nat ListboxStateData" where
  "exampleContext =
     \<lparr>value = Some 1, refs = exampleRefs, options = exampleOptions,
      navigationValue = Some 1, typeaheadQuery = Some ''a''\<rparr>"

definition emptyPatch :: "'v DataPatch" where
  "emptyPatch =
     \<lparr>pvalue = None, prefs = None, poptions = None, pnavigationValue = None,
      ptypeaheadQuery = None\<rparr>"

definition plainEvent :: "ListboxEvents \<Rightarrow> nat ListboxEvent" where
  "plainEvent t =
     \<lparr>etype = t, erefs = exampleRefs, relatedTarget = None, evalue = None, query = [],
      disabled = False, callback = True, data = emptyPatch\<rparr>"

definition exampleDOM :: "Element option \<Rightarrow> DOM" where
  "exampleDOM active =
     \<lparr>document = 0, getOwnerDocument = (\<lambda>e. Some 0), activeElement = (\<lambda>doc. active),
      contains = (\<lambda>p x. p = 4 \<and> x \<in> {3, 4, 10, 11})\<rparr>"

section \<open>Properties\<close>

lemmas example_defs = exampleRefs_def exampleOptions_def exampleContext_def emptyPatch_def
  plainEvent_def exampleDOM_def

lemmas action_defs = clearNavigationValue_def clearTypeaheadQuery_def assignValue_def
  navigate_def navigateFromCurrentValue_def focusList_def focusNavOption_def focusButton_def
  optionIsSelectable_def selectOption_def setTypeahead_def clearTypeahead_def
  setValueFromTypeahead_def setNavSelectionFromTypeahead_def getDerivedData_def
  getNavigationNodeFromValue_def

lemmas machine_defs = send_def guardHolds_def assign_def spread_def commit_def
  blurCascade_def keyDownNavigate_def commonEvents_def openEvents_def

lemmas string_defs = findOptionFromTypeahead_def startsWith_def toLowerCase_def
  toLowerCase_char_def

subsection \<open>What the tables hold\<close>

lemma states_Blur:
  "s \<noteq> Idle \<Longrightarrow>
     states s Blur = Some (blurCascade (if s = Interacting then Navigating else s))"
  by (cases s) (simp_all add: commonEvents_def openEvents_def)

lemma states_commit:
  "s \<noteq> Idle \<Longrightarrow> e = OptionFinishClick \<or> e = KeyDownEnter \<or> e = KeyDownSpace \<Longrightarrow>
     states s e = Some [commit]"
  by (cases s) (auto simp add: commonEvents_def openEvents_def)

lemma states_GetDerivedData:
  "states s GetDerivedData =
     Some [\<lparr>target = None, actions = [assign getDerivedData], cond = None\<rparr>]"
  by (cases s) (simp_all add: commonEvents_def openEvents_def)

lemma send_blur:
  assumes "s \<noteq> Idle" "etype event = Blur"
  shows "send env (s, ctx) event =
   (if listboxLostFocus env ctx event then ((Idle, ctx\<lparr>typeaheadQuery := None\<rparr>), [])
    else if optionIsActive env ctx event
      then ((if s = Interacting then Navigating else s, ctx), [])
    else ((Interacting, ctx\<lparr>typeaheadQuery := None\<rparr>), []))"
  using assms
  by (simp add: send_def states_Blur blurCascade_def guardHolds_def assign_def
        clearTypeaheadQuery_def spread_def)

subsection \<open>The Blur cascade\<close>

text \<open>
  C1.  In every state except Idle a Blur event is resolved by the three guards in order:
  if \<open>listboxLostFocus\<close> holds the machine goes to Idle and the typeahead query becomes
  null; otherwise, if the focused element is one of the options, it stays in its state
  (from Interacting it returns to Navigating) and the context is untouched; otherwise it
  goes to Interacting and the typeahead query becomes null.  The guard compares the list
  with the active element of the owner document, not with \<open>relatedTarget\<close>: a Blur whose
  \<open>relatedTarget\<close> lies outside the mounted popover leads to Idle when that active
  element is not the list.
\<close>

theorem blur_cascade:
  assumes "s \<noteq> Idle" and "etype event = Blur"
  shows "send env (s, ctx) event =
           (if listboxLostFocus env ctx event
              then ((Idle, ctx\<lparr>typeaheadQuery := None\<rparr>), [])
            else if optionIsActive env ctx event
              then ((if s = Interacting then Navigating else s, ctx), [])
            else ((Interacting, ctx\<lparr>typeaheadQuery := None\<rparr>), [])) \<and>
         (\<forall>p r. popover (erefs event) = Some p \<longrightarrow> relatedTarget event = Some r \<longrightarrow>
                \<not> contains env p r \<longrightarrow>
                activeElement env (ownerDocumentOr env (button (erefs event)))
                  \<noteq> list (erefs event) \<longrightarrow>
                send env (s, ctx) event = ((Idle, ctx\<lparr>typeaheadQuery := None\<rparr>), []))"
proof -
  have cascade: "send env (s, ctx) event =
           (if listboxLostFocus env ctx event
              then ((Idle, ctx\<lparr>typeaheadQuery := None\<rparr>), [])
            else if optionIsActive env ctx event
              then ((if s = Interacting then Navigating else s, ctx), [])
            else ((Interacting, ctx\<lparr>typeaheadQuery := None\<rparr>), []))"
    using assms by (rule send_blur)
  have lost: "listboxLostFocus env ctx event"
    if "popover (erefs event) = Some p" "relatedTarget event = Some r"
       "\<not> contains env p r"
       "activeElement env (ownerDocumentOr env (button (erefs event))) \<noteq> list (erefs event)"
    for p r
    using that assms(2) by (simp add: listboxLostFocus_def)
  show ?thesis
    using cascade lost by simp
qed

text \<open>
  The focus moves from an option to element 99 outside the popover while the machine is
  navigating with keys: the machine closes.
\<close>

theorem blur_cascade_witness:
  "send (exampleDOM (Some 99)) (NavigatingWithKeys, exampleContext)
        ((plainEvent Blur)\<lparr>relatedTarget := Some 99\<rparr>)
     = ((Idle, exampleContext\<lparr>typeaheadQuery := None\<rparr>), [])"
  using blur_cascade [of NavigatingWithKeys "(plainEvent Blur)\<lparr>relatedTarget := Some 99\<rparr>"
                         "exampleDOM (Some 99)" exampleContext]
  by (simp add: example_defs ownerDocumentOr_def listboxLostFocus_def)

text \<open>
  With \<open>relatedTarget\<close> outside the popover and different from the list, but the list
  still the active element of the document, the first guard fails and the machine does
  not go to Idle.
\<close>

theorem blur_relatedTarget_counterexample:
  "relatedTarget ((plainEvent Blur)\<lparr>relatedTarget := Some 99\<rparr>) = Some 99 \<and>
   popover (erefs ((plainEvent Blur)\<lparr>relatedTarget := Some 99\<rparr>)) = Some 4 \<and>
   \<not> contains (exampleDOM (Some 3)) 4 99 \<and>
   list (erefs ((plainEvent Blur)\<lparr>relatedTarget := Some 99\<rparr>)) = Some 3 \<and>
   send (exampleDOM (Some 3)) (Navigating, exampleContext)
        ((plainEvent Blur)\<lparr>relatedTarget := Some 99\<rparr>)
     = ((Interacting, exampleContext\<lparr>typeaheadQuery := None\<rparr>), [])"
  by (simp add: send_blur listboxLostFocus_def optionIsActive_def ownerDocumentOr_def
        example_defs)

lemma states_KeyDownSearch:
  "states s KeyDownSearch =
     (if s = Interacting then None
      else Some [\<lparr>target = Some (if s = Idle then Idle else NavigatingWithKeys),
                   actions = [assign setTypeahead], cond = None\<rparr>])"
  by (cases s) (simp_all add: commonEvents_def openEvents_def)

lemma send_commit:
  assumes "s \<noteq> Idle"
    and "etype event = OptionFinishClick \<or> etype event = KeyDownEnter \<or>
         etype event = KeyDownSpace"
  shows "send env (s, ctx) event =
           (if optionIsSelectable ctx event
            then ((Idle, ctx\<lparr>value := evalue event, typeaheadQuery := None\<rparr>),
                  selectOption ctx event @ focusButton ctx event)
            else ((s, ctx), []))"
  using assms
  by (simp add: send_def states_commit commit_def guardHolds_def assign_def spread_def
        assignValue_def clearTypeaheadQuery_def selectOption_def focusButton_def)

subsection \<open>Committing a selection\<close>

text \<open>
  C2.  In each open state (every state but Idle) an OptionFinishClick, KeyDownEnter or
  KeyDownSpace event commits when \<open>navigationValue\<close> is not null and the event does not
  mark the option disabled: \<open>value\<close> becomes the event's value, the typeahead query
  becomes null, the machine goes to Idle, and the caller's callback (when the event has
  one) is called with the event's value before the button is focused.  When the guard
  fails, the state and the whole context stay as they are and nothing else happens.
\<close>

theorem commit_when_selectable:
  assumes "s \<noteq> Idle"
    and "etype event = OptionFinishClick \<or> etype event = KeyDownEnter \<or>
         etype event = KeyDownSpace"
  shows "(navigationValue ctx \<noteq> None \<and> \<not> disabled event \<longrightarrow>
            send env (s, ctx) event =
              ((Idle, ctx\<lparr>value := evalue event, typeaheadQuery := None\<rparr>),
               (if callback event then [Callback (evalue event)] else []) @
               (case button (erefs event) of None \<Rightarrow> [] | Some b \<Rightarrow> [Focus b]))) \<and>
         (navigationValue ctx = None \<or> disabled event \<longrightarrow>
            send env (s, ctx) event = ((s, ctx), []))"
  using send_commit [OF assms, of env ctx]
  by (auto simp add: optionIsSelectable_def selectOption_def focusButton_def)

text \<open>
  Enter on the highlighted Banana commits value 2; a click while nothing is highlighted
  is blocked.
\<close>

theorem commit_when_selectable_witness:
  "send (exampleDOM (Some 11)) (Navigating, exampleContext\<lparr>navigationValue := Some 2\<rparr>)
        ((plainEvent KeyDownEnter)\<lparr>evalue := Some 2\<rparr>)
     = ((Idle, exampleContext\<lparr>navigationValue := Some 2, value := Some 2,
                               typeaheadQuery := None\<rparr>),
        [Callback (Some 2), Focus 1]) \<and>
   send (exampleDOM (Some 11)) (Navigating, exampleContext\<lparr>navigationValue := None\<rparr>)
        ((plainEvent OptionFinishClick)\<lparr>evalue := Some 2\<rparr>)
     = ((Navigating, exampleContext\<lparr>navigationValue := None\<rparr>), [])"
  using commit_when_selectable
          [of Navigating "(plainEvent KeyDownEnter)\<lparr>evalue := Some 2\<rparr>"
              "exampleContext\<lparr>navigationValue := Some 2\<rparr>" "exampleDOM (Some 11)"]
        commit_when_selectable
          [of Navigating "(plainEvent OptionFinishClick)\<lparr>evalue := Some 2\<rparr>"
              "exampleContext\<lparr>navigationValue := None\<rparr>" "exampleDOM (Some 11)"]
  by (simp add: example_defs)

subsection \<open>A Blur without a popover\<close>

text \<open>
  C3.  When the refs of a Blur event carry no popover, \<open>listboxLostFocus\<close> is false
  (the conjunct \<open>popover && ...\<close> fails), so from an open state the cascade never takes
  its first branch: the machine stays open, in its state (or Navigating, from
  Interacting) when an option has the focus, and in Interacting with the typeahead query
  null otherwise.
\<close>

theorem missing_popover_not_lost:
  assumes "etype event = Blur" and "popover (erefs event) = None"
  shows "\<not> listboxLostFocus env ctx event \<and>
         (s \<noteq> Idle \<longrightarrow>
            send env (s, ctx) event =
              (if optionIsActive env ctx event
                 then ((if s = Interacting then Navigating else s, ctx), [])
               else ((Interacting, ctx\<lparr>typeaheadQuery := None\<rparr>), [])) \<and>
            fst (fst (send env (s, ctx) event)) \<noteq> Idle)"
proof -
  have no: "\<not> listboxLostFocus env ctx event"
    using assms by (simp add: listboxLostFocus_def)
  show ?thesis
    using no assms(1) by (simp add: send_blur)
qed

theorem missing_popover_not_lost_witness:
  "\<not> listboxLostFocus (exampleDOM (Some 99)) exampleContext
       ((plainEvent Blur)\<lparr>erefs := exampleRefs\<lparr>popover := None\<rparr>\<rparr>) \<and>
   send (exampleDOM (Some 99)) (Searching, exampleContext)
        ((plainEvent Blur)\<lparr>erefs := exampleRefs\<lparr>popover := None\<rparr>\<rparr>)
     = ((Interacting, exampleContext\<lparr>typeaheadQuery := None\<rparr>), [])"
  using missing_popover_not_lost
          [of "(plainEvent Blur)\<lparr>erefs := exampleRefs\<lparr>popover := None\<rparr>\<rparr>"
              "exampleDOM (Some 99)" exampleContext Searching]
  by (simp add: example_defs optionIsActive_def ownerDocumentOr_def)

text \<open>
  The popover is not mounted and the focus is on element 99: the guard is false and the
  machine, in Navigating, goes to Interacting, not to Idle.
\<close>

theorem missing_popover_counterexample:
  "etype ((plainEvent Blur)\<lparr>erefs := exampleRefs\<lparr>popover := None\<rparr>\<rparr>) = Blur \<and>
   popover (erefs ((plainEvent Blur)\<lparr>erefs := exampleRefs\<lparr>popover := None\<rparr>\<rparr>)) = None \<and>
   listboxLostFocus (exampleDOM (Some 99)) exampleContext
       ((plainEvent Blur)\<lparr>erefs := exampleRefs\<lparr>popover := None\<rparr>\<rparr>) = False \<and>
   send (exampleDOM (Some 99)) (Navigating, exampleContext)
        ((plainEvent Blur)\<lparr>erefs := exampleRefs\<lparr>popover := None\<rparr>\<rparr>)
     = ((Interacting, exampleContext\<lparr>typeaheadQuery := None\<rparr>), [])"
  by (simp add: send_blur listboxLostFocus_def optionIsActive_def ownerDocumentOr_def
        example_defs)

subsection \<open>Search keystrokes\<close>

text \<open>
  C4.  Navigating, NavigatingWithKeys and Searching handle KeyDownSearch by going to
  NavigatingWithKeys and appending the event's character to the typeahead query (null
  counts as the empty string).  Interacting declares no KeyDownSearch transition: there
  the event changes nothing.
\<close>

theorem keyDownSearch_appends:
  assumes "etype event = KeyDownSearch"
  shows "(s = Navigating \<or> s = NavigatingWithKeys \<or> s = Searching \<longrightarrow>
            send env (s, ctx) event =
              ((NavigatingWithKeys,
                ctx\<lparr>typeaheadQuery :=
                      Some ((case typeaheadQuery ctx of None \<Rightarrow> [] | Some q \<Rightarrow> q)
                            @ query event)\<rparr>), [])) \<and>
         (s = Interacting \<longrightarrow> send env (s, ctx) event = ((Interacting, ctx), []))"
  using assms
  by (auto simp add: send_def states_KeyDownSearch guardHolds_def assign_def spread_def
        setTypeahead_def)

theorem keyDownSearch_appends_witness:
  "send (exampleDOM (Some 10)) (Navigating, exampleContext)
        ((plainEvent KeyDownSearch)\<lparr>query := ''p''\<rparr>)
     = ((NavigatingWithKeys, exampleContext\<lparr>typeaheadQuery := Some ''ap''\<rparr>), [])"
  using keyDownSearch_appends
          [of "(plainEvent KeyDownSearch)\<lparr>query := ''p''\<rparr>" Navigating
              "exampleDOM (Some 10)" exampleContext]
  by (simp add: example_defs)

text \<open>In Interacting the keystroke is dropped: the state and the query \<open>a\<close> stay.\<close>

theorem keyDownSearch_interacting_counterexample:
  "send (exampleDOM (Some 10)) (Interacting, exampleContext)
        ((plainEvent KeyDownSearch)\<lparr>query := ''p''\<rparr>)
     = ((Interacting, exampleContext), []) \<and>
   typeaheadQuery exampleContext = Some ''a''"
  by (simp add: send_def states_KeyDownSearch example_defs)

lemma states_UpdateAfterTypeahead:
  "states s UpdateAfterTypeahead =
     (if s = Interacting then None
      else if s = Idle
        then Some [\<lparr>target = Some Idle, actions = [AssignAction setValueFromTypeahead],
                     cond = None\<rparr>]
      else Some [\<lparr>target = None,
                   actions = [assign setNavSelectionFromTypeahead, ExecAction focusNavOption],
                   cond = None\<rparr>])"
  by (cases s) (simp_all add: commonEvents_def openEvents_def)

lemma send_UpdateAfterTypeahead:
  assumes "etype event = UpdateAfterTypeahead"
  shows "send env (s, ctx) event =
           (if s = Interacting then ((s, ctx), [])
            else if s = Idle then
              (case setValueFromTypeahead ctx event of (ctx', fx) \<Rightarrow> ((Idle, ctx'), fx))
            else ((s, setNavSelectionFromTypeahead ctx event),
                  focusNavOption (setNavSelectionFromTypeahead ctx event) event))"
  using assms
  by (simp add: send_def states_UpdateAfterTypeahead guardHolds_def assign_def spread_def
        split: prod.splits)

lemma findOptionFromTypeahead_enabled:
  "findOptionFromTypeahead opts q = Some m \<Longrightarrow> \<not> odisabled m"
  by (auto simp add: findOptionFromTypeahead_def find_Some_iff split: if_splits)

subsection \<open>Resolving the typeahead query\<close>

text \<open>
  C5.  An UpdateAfterTypeahead event with a non-empty query that has a match: in Idle the
  match's value is committed to \<open>value\<close>, the event's callback (when it has one) is
  called with it, and the machine stays in Idle; in Navigating, NavigatingWithKeys and
  Searching only \<open>navigationValue\<close> becomes the match's value (and the focus of that
  option is scheduled), the state stays; Interacting declares no UpdateAfterTypeahead
  transition and changes nothing.  The run of the specification: a fresh machine receives
  the options Apple (1) and Banana (2), then KeyDownSearch \<open>b\<close>, then
  UpdateAfterTypeahead with query \<open>b\<close>; it ends in Idle with value 2 and one call of the
  callback, with 2.
\<close>

theorem updateAfterTypeahead_resolves:
  assumes "etype event = UpdateAfterTypeahead" and "query event \<noteq> []"
    and "findOptionFromTypeahead (options ctx) (query event) = Some m"
  shows "(s = Idle \<longrightarrow>
            send env (s, ctx) event =
              ((Idle, ctx\<lparr>value := Some (ovalue m)\<rparr>),
               if callback event then [Callback (Some (ovalue m))] else [])) \<and>
         (s = Navigating \<or> s = NavigatingWithKeys \<or> s = Searching \<longrightarrow>
            send env (s, ctx) event =
              ((s, ctx\<lparr>navigationValue := Some (ovalue m)\<rparr>),
               focusNavOption (ctx\<lparr>navigationValue := Some (ovalue m)\<rparr>) event)) \<and>
         (s = Interacting \<longrightarrow> send env (s, ctx) event = ((s, ctx), [])) \<and>
         sendAll (createListboxMachine None)
           [(exampleDOM (Some 1),
             (plainEvent GetDerivedData)
               \<lparr>data := emptyPatch\<lparr>poptions := Some exampleOptions\<rparr>\<rparr>),
            (exampleDOM (Some 1), (plainEvent KeyDownSearch)\<lparr>query := ''b''\<rparr>),
            (exampleDOM (Some 1), (plainEvent UpdateAfterTypeahead)\<lparr>query := ''b''\<rparr>)]
           = ((Idle,
               \<lparr>value = Some 2,
                refs = \<lparr>button = None, input = None, list = None, popover = None\<rparr>,
                options = exampleOptions, navigationValue = None,
                typeaheadQuery = Some ''b''\<rparr>),
              [Callback (Some 2)])"
proof -
  have en: "\<not> odisabled m"
    using assms(3) by (rule findOptionFromTypeahead_enabled)
  have idle: "send env (Idle, ctx) event =
      ((Idle, ctx\<lparr>value := Some (ovalue m)\<rparr>),
       if callback event then [Callback (Some (ovalue m))] else [])"
    using assms en by (simp add: send_UpdateAfterTypeahead setValueFromTypeahead_def)
  have nav: "setNavSelectionFromTypeahead ctx event = ctx\<lparr>navigationValue := Some (ovalue m)\<rparr>"
    using assms en by (simp add: setNavSelectionFromTypeahead_def)
  have run: "sendAll (createListboxMachine None)
           [(exampleDOM (Some 1),
             (plainEvent GetDerivedData)
               \<lparr>data := emptyPatch\<lparr>poptions := Some exampleOptions\<rparr>\<rparr>),
            (exampleDOM (Some 1), (plainEvent KeyDownSearch)\<lparr>query := ''b''\<rparr>),
            (exampleDOM (Some 1), (plainEvent UpdateAfterTypeahead)\<lparr>query := ''b''\<rparr>)]
           = ((Idle,
               \<lparr>value = Some 2,
                refs = \<lparr>button = None, input = None, list = None, popover = None\<rparr>,
                options = exampleOptions, navigationValue = None,
                typeaheadQuery = Some ''b''\<rparr>),
              [Callback (Some 2)])"
    by (simp add: createListboxMachine_def machine_defs action_defs string_defs example_defs
          emptyRefsPatch_def)
  show ?thesis
    using idle nav run assms(1) by (auto simp add: send_UpdateAfterTypeahead)
qed

text \<open>Navigating with keys, the query \<open>BAN\<close> moves the highlight to Banana.\<close>

theorem updateAfterTypeahead_resolves_witness:
  "send (exampleDOM (Some 10)) (NavigatingWithKeys, exampleContext)
        ((plainEvent UpdateAfterTypeahead)\<lparr>query := ''BAN''\<rparr>)
     = ((NavigatingWithKeys, exampleContext\<lparr>navigationValue := Some 2\<rparr>),
        [FocusNextFrame 11])"
  using updateAfterTypeahead_resolves
          [of "(plainEvent UpdateAfterTypeahead)\<lparr>query := ''BAN''\<rparr>" exampleContext
              "\<lparr>element = Some 11, ovalue = 2, label = ''Banana'', odisabled = False\<rparr>"
              NavigatingWithKeys "exampleDOM (Some 10)"]
  by (simp add: example_defs string_defs focusNavOption_def getNavigationNodeFromValue_def)

text \<open>
  In Interacting the query \<open>b\<close> matches Banana, but the event is dropped and the
  highlight stays on Apple.
\<close>

theorem updateAfterTypeahead_interacting_counterexample:
  "findOptionFromTypeahead (options exampleContext) ''b''
     = Some \<lparr>element = Some 11, ovalue = 2, label = ''Banana'', odisabled = False\<rparr> \<and>
   navigationValue exampleContext = Some 1 \<and>
   send (exampleDOM (Some 10)) (Interacting, exampleContext)
        ((plainEvent UpdateAfterTypeahead)\<lparr>query := ''b''\<rparr>)
     = ((Interacting, exampleContext), [])"
  by (simp add: send_UpdateAfterTypeahead example_defs string_defs)

subsection \<open>The typeahead match\<close>

lemma toLowerCase_Nil_iff: "toLowerCase s = [] \<longleftrightarrow> s = []"
  by (simp add: toLowerCase_def)

text \<open>
  For a non-empty query the test of the source (not disabled, a non-empty label, the
  lowered label starts with the lowered query) is the test of the specification: the
  label of a match cannot be empty.
\<close>

lemma source_predicate_is_spec:
  assumes "q \<noteq> []"
  shows "(\<not> odisabled opt \<and> label opt \<noteq> [] \<and>
           startsWith (toLowerCase (label opt)) (toLowerCase q))
         \<longleftrightarrow> spec_qualifies q opt"
proof -
  have "label opt \<noteq> []" if "prefix (toLowerCase q) (toLowerCase (label opt))"
  proof
    assume "label opt = []"
    with that have "toLowerCase q = []" by (simp add: toLowerCase_def)
    with assms show False by (simp add: toLowerCase_Nil_iff)
  qed
  then show ?thesis
    by (auto simp add: spec_qualifies_def startsWith_def)
qed

lemma findOptionFromTypeahead_spec:
  "findOptionFromTypeahead opts q =
     (if q = [] then None else find (spec_qualifies q) opts)"
proof (cases "q = []")
  case True
  then show ?thesis by (simp add: findOptionFromTypeahead_def)
next
  case False
  then show ?thesis
    by (simp add: findOptionFromTypeahead_def source_predicate_is_spec [OF False])
qed

text \<open>
  C6.  \<open>findOptionFromTypeahead\<close> returns no match exactly when the query is empty or no
  option qualifies, and returns \<open>m\<close> exactly when the query is not empty and \<open>m\<close> is
  the first option in list order that is not disabled and whose label, lowered, starts
  with the lowered query.  When it returns no match for the query of an
  UpdateAfterTypeahead event, \<open>value\<close> and \<open>navigationValue\<close> are as before, in every
  state.
\<close>

theorem findOptionFromTypeahead_first_match:
  "(findOptionFromTypeahead opts q = None \<longleftrightarrow>
      q = [] \<or> (\<forall>opt \<in> set opts. \<not> spec_qualifies q opt)) \<and>
   (\<forall>m. findOptionFromTypeahead opts q = Some m \<longleftrightarrow>
      q \<noteq> [] \<and>
      (\<exists>i < length opts. opts ! i = m \<and> spec_qualifies q m \<and>
                         (\<forall>j < i. \<not> spec_qualifies q (opts ! j)))) \<and>
   (etype event = UpdateAfterTypeahead \<longrightarrow>
      findOptionFromTypeahead (options ctx) (query event) = None \<longrightarrow>
      value (snd (fst (send env (s, ctx) event))) = value ctx \<and>
      navigationValue (snd (fst (send env (s, ctx) event))) = navigationValue ctx)"
proof -
  have none: "findOptionFromTypeahead opts q = None \<longleftrightarrow>
      q = [] \<or> (\<forall>opt \<in> set opts. \<not> spec_qualifies q opt)"
    by (auto simp add: findOptionFromTypeahead_spec find_None_iff)
  have some: "findOptionFromTypeahead opts q = Some m \<longleftrightarrow>
      q \<noteq> [] \<and>
      (\<exists>i < length opts. opts ! i = m \<and> spec_qualifies q m \<and>
                         (\<forall>j < i. \<not> spec_qualifies q (opts ! j)))" for m
    by (auto simp add: findOptionFromTypeahead_spec find_Some_iff)
  have unchanged:
    "value (snd (fst (send env (s, ctx) event))) = value ctx \<and>
     navigationValue (snd (fst (send env (s, ctx) event))) = navigationValue ctx"
    if "etype event = UpdateAfterTypeahead"
       "findOptionFromTypeahead (options ctx) (query event) = None"
    using that
    by (simp add: send_UpdateAfterTypeahead setValueFromTypeahead_def
          setNavSelectionFromTypeahead_def)
  show ?thesis
    using none some unchanged by blast
qed

text \<open>
  With a disabled Blueberry in front, the query \<open>bA\<close> finds Banana, the third option;
  the query \<open>x\<close> finds nothing and leaves \<open>value\<close> and \<open>navigationValue\<close> at 1.
\<close>

theorem findOptionFromTypeahead_first_match_witness:
  "findOptionFromTypeahead
     (\<lparr>element = Some 9, ovalue = 0, label = ''Blueberry'', odisabled = True\<rparr>
        # exampleOptions) ''bA''
     = Some \<lparr>element = Some 11, ovalue = 2, label = ''Banana'', odisabled = False\<rparr> \<and>
   findOptionFromTypeahead exampleOptions ''x'' = None \<and>
   value (snd (fst (send (exampleDOM (Some 10)) (Idle, exampleContext)
                     ((plainEvent UpdateAfterTypeahead)\<lparr>query := ''x''\<rparr>)))) = Some 1 \<and>
   navigationValue (snd (fst (send (exampleDOM (Some 10)) (Navigating, exampleContext)
                     ((plainEvent UpdateAfterTypeahead)\<lparr>query := ''x''\<rparr>)))) = Some 1"
proof -
  let ?opts = "\<lparr>element = Some 9, ovalue = 0::nat, label = ''Blueberry'', odisabled = True\<rparr>
                 # exampleOptions"
  let ?banana = "\<lparr>element = Some 11, ovalue = 2::nat, label = ''Banana'', odisabled = False\<rparr>"
  let ?ev = "(plainEvent UpdateAfterTypeahead)\<lparr>query := ''x''\<rparr>"
  have q1: "(\<forall>opt \<in> set exampleOptions. \<not> spec_qualifies ''x'' opt)"
    by (simp add: exampleOptions_def spec_qualifies_def toLowerCase_def toLowerCase_char_def)
  have q2: "\<exists>i < length ?opts. ?opts ! i = ?banana \<and> spec_qualifies ''bA'' ?banana \<and>
                         (\<forall>j < i. \<not> spec_qualifies ''bA'' (?opts ! j))"
  proof -
    have "(2::nat) < length ?opts \<and> ?opts ! 2 = ?banana \<and> spec_qualifies ''bA'' ?banana \<and>
          (\<forall>j < 2. \<not> spec_qualifies ''bA'' (?opts ! j))"
      by (simp add: exampleOptions_def spec_qualifies_def toLowerCase_def toLowerCase_char_def
            less_Suc_eq numeral_2_eq_2 all_conj_distrib)
    then show ?thesis by blast
  qed
  have none: "findOptionFromTypeahead exampleOptions ''x'' = None"
    using findOptionFromTypeahead_first_match
            [of exampleOptions "''x''" ?ev exampleContext "exampleDOM (Some 10)" Idle] q1
    by simp
  have some: "findOptionFromTypeahead ?opts ''bA'' = Some ?banana"
    using findOptionFromTypeahead_first_match
            [of ?opts "''bA''" ?ev exampleContext "exampleDOM (Some 10)" Idle] q2
    by simp
  have e: "etype ?ev = UpdateAfterTypeahead" "options exampleContext = exampleOptions"
    "query ?ev = ''x''" "value exampleContext = Some 1" "navigationValue exampleContext = Some 1"
    by (simp_all add: example_defs)
  have u1: "value (snd (fst (send (exampleDOM (Some 10)) (Idle, exampleContext) ?ev))) = Some 1"
    using findOptionFromTypeahead_first_match
            [of exampleOptions "''x''" ?ev exampleContext "exampleDOM (Some 10)" Idle]
      none e by simp
  have u2: "navigationValue (snd (fst (send (exampleDOM (Some 10)) (Navigating, exampleContext)
              ?ev))) = Some 1"
    using findOptionFromTypeahead_first_match
            [of exampleOptions "''x''" ?ev exampleContext "exampleDOM (Some 10)" Navigating]
      none e by simp
  show ?thesis
    using none some u1 u2 by simp
qed

subsection \<open>Pointer navigation and the typeahead query\<close>

lemma states_Navigate:
  "states s Navigate =
     (if s = Idle then None
      else Some [\<lparr>target = Some Navigating,
                   actions = (if s = Searching
                              then [assign navigate, ExecAction focusNavOption,
                                    assign clearTypeaheadQuery]
                              else [assign navigate, ExecAction focusNavOption]),
                   cond = None\<rparr>])"
  by (cases s) (simp_all add: commonEvents_def openEvents_def)

text \<open>
  C7.  In every open state a Navigate event sets \<open>navigationValue\<close> to the event's
  value, schedules the focus of that option and goes to Navigating.  In Searching it also
  sets the typeahead query to null; in Interacting, Navigating and NavigatingWithKeys the
  action list is \<open>[navigate, focusNavOption]\<close> and the query stays as it was.
\<close>

theorem navigate_in_open_states:
  assumes "s \<noteq> Idle" and "etype event = Navigate"
  shows "send env (s, ctx) event =
           (if s = Searching
            then ((Navigating, ctx\<lparr>navigationValue := evalue event, typeaheadQuery := None\<rparr>),
                  focusNavOption
                    (ctx\<lparr>navigationValue := evalue event, typeaheadQuery := None\<rparr>) event)
            else ((Navigating, ctx\<lparr>navigationValue := evalue event\<rparr>),
                  focusNavOption (ctx\<lparr>navigationValue := evalue event\<rparr>) event)) \<and>
         (s = Searching \<longrightarrow> typeaheadQuery (snd (fst (send env (s, ctx) event))) = None) \<and>
         (s \<noteq> Searching \<longrightarrow>
            typeaheadQuery (snd (fst (send env (s, ctx) event))) = typeaheadQuery ctx)"
  using assms
  by (simp add: send_def states_Navigate guardHolds_def assign_def spread_def navigate_def
        clearTypeaheadQuery_def)

text \<open>
  The pointer moves to Banana: from Searching the query becomes null, from
  NavigatingWithKeys it stays \<open>a\<close>.
\<close>

theorem navigate_in_open_states_witness:
  "send (exampleDOM (Some 10)) (Searching, exampleContext)
        ((plainEvent Navigate)\<lparr>evalue := Some 2\<rparr>)
     = ((Navigating, exampleContext\<lparr>navigationValue := Some 2, typeaheadQuery := None\<rparr>),
        [FocusNextFrame 11]) \<and>
   send (exampleDOM (Some 10)) (NavigatingWithKeys, exampleContext)
        ((plainEvent Navigate)\<lparr>evalue := Some 2\<rparr>)
     = ((Navigating, exampleContext\<lparr>navigationValue := Some 2\<rparr>), [FocusNextFrame 11])"
  using navigate_in_open_states
          [of Searching "(plainEvent Navigate)\<lparr>evalue := Some 2\<rparr>" "exampleDOM (Some 10)"
              exampleContext]
        navigate_in_open_states
          [of NavigatingWithKeys "(plainEvent Navigate)\<lparr>evalue := Some 2\<rparr>"
              "exampleDOM (Some 10)" exampleContext]
  by (simp add: example_defs focusNavOption_def getNavigationNodeFromValue_def)

text \<open>
  With the query \<open>a\<close> accumulated and the pointer moving to Banana, the machine in
  Navigating, NavigatingWithKeys or Interacting goes to Navigating with
  \<open>navigationValue\<close> 2 and the query still \<open>a\<close>, not cleared; from Searching the same
  event leaves the query null, and so does KeyDownNavigate from Navigating.
\<close>

theorem navigate_keeps_typeahead_counterexample:
  "send (exampleDOM (Some 10)) (Navigating, exampleContext)
        ((plainEvent Navigate)\<lparr>evalue := Some 2\<rparr>)
     = ((Navigating, exampleContext\<lparr>navigationValue := Some 2\<rparr>), [FocusNextFrame 11]) \<and>
   send (exampleDOM (Some 10)) (NavigatingWithKeys, exampleContext)
        ((plainEvent Navigate)\<lparr>evalue := Some 2\<rparr>)
     = ((Navigating, exampleContext\<lparr>navigationValue := Some 2\<rparr>), [FocusNextFrame 11]) \<and>
   send (exampleDOM (Some 10)) (Interacting, exampleContext)
        ((plainEvent Navigate)\<lparr>evalue := Some 2\<rparr>)
     = ((Navigating, exampleContext\<lparr>navigationValue := Some 2\<rparr>), [FocusNextFrame 11]) \<and>
   typeaheadQuery (exampleContext\<lparr>navigationValue := Some 2\<rparr>) = Some ''a'' \<and>
   send (exampleDOM (Some 10)) (Searching, exampleContext)
        ((plainEvent Navigate)\<lparr>evalue := Some 2\<rparr>)
     = ((Navigating, exampleContext\<lparr>navigationValue := Some 2, typeaheadQuery := None\<rparr>),
        [FocusNextFrame 11]) \<and>
   send (exampleDOM (Some 10)) (Navigating, exampleContext)
        ((plainEvent KeyDownNavigate)\<lparr>evalue := Some 2\<rparr>)
     = ((NavigatingWithKeys,
         exampleContext\<lparr>navigationValue := Some 2, typeaheadQuery := None\<rparr>),
        [FocusNextFrame 11])"
  by (simp add: send_def states_Navigate guardHolds_def assign_def spread_def navigate_def
        clearTypeaheadQuery_def focusNavOption_def getNavigationNodeFromValue_def
        keyDownNavigate_def commonEvents_def openEvents_def example_defs)

subsection \<open>Derived data\<close>

text \<open>
  C8.  In every state a GetDerivedData event leaves the state as it is and has no effect
  outside the context.  Every field of the new context other than \<open>refs\<close> is the
  payload's field when the payload has it and the old field otherwise.  \<open>refs\<close> is
  merged one level deeper: each of its four handles is the handle of the payload's
  \<open>refs\<close> when the payload has \<open>refs\<close> and they have that handle, and the old handle
  otherwise.
\<close>

theorem getDerivedData_merges:
  assumes "etype event = GetDerivedData"
  shows "fst (fst (send env (s, ctx) event)) = s \<and>
         snd (send env (s, ctx) event) = [] \<and>
         value (snd (fst (send env (s, ctx) event)))
           = (case pvalue (data event) of None \<Rightarrow> value ctx | Some v \<Rightarrow> v) \<and>
         options (snd (fst (send env (s, ctx) event)))
           = (case poptions (data event) of None \<Rightarrow> options ctx | Some v \<Rightarrow> v) \<and>
         navigationValue (snd (fst (send env (s, ctx) event)))
           = (case pnavigationValue (data event) of None \<Rightarrow> navigationValue ctx
              | Some v \<Rightarrow> v) \<and>
         typeaheadQuery (snd (fst (send env (s, ctx) event)))
           = (case ptypeaheadQuery (data event) of None \<Rightarrow> typeaheadQuery ctx
              | Some v \<Rightarrow> v) \<and>
         (prefs (data event) = None \<longrightarrow>
            refs (snd (fst (send env (s, ctx) event))) = refs ctx) \<and>
         (\<forall>rp. prefs (data event) = Some rp \<longrightarrow>
            button (refs (snd (fst (send env (s, ctx) event))))
              = (case pbutton rp of None \<Rightarrow> button (refs ctx) | Some h \<Rightarrow> h) \<and>
            input (refs (snd (fst (send env (s, ctx) event))))
              = (case pinput rp of None \<Rightarrow> input (refs ctx) | Some h \<Rightarrow> h) \<and>
            list (refs (snd (fst (send env (s, ctx) event))))
              = (case plist rp of None \<Rightarrow> list (refs ctx) | Some h \<Rightarrow> h) \<and>
            popover (refs (snd (fst (send env (s, ctx) event))))
              = (case ppopover rp of None \<Rightarrow> popover (refs ctx) | Some h \<Rightarrow> h))"
proof -
  have "send env (s, ctx) event = ((s, getDerivedData ctx event), [])"
    using assms
    by (simp add: send_def states_GetDerivedData guardHolds_def assign_def spread_def)
  then show ?thesis
    by (simp add: getDerivedData_def spread_def emptyRefsPatch_def Let_def)
qed

text \<open>
  While navigating, the registry reports an empty option list and an unmounted popover:
  the options and the popover handle are replaced, the button, input and list handles and
  the other fields survive.
\<close>

theorem getDerivedData_merges_witness:
  "send (exampleDOM (Some 10)) (Navigating, exampleContext)
     ((plainEvent GetDerivedData)
        \<lparr>data := emptyPatch\<lparr>poptions := Some [],
                             prefs := Some (emptyRefsPatch\<lparr>ppopover := Some None\<rparr>)\<rparr>\<rparr>)
   = ((Navigating, exampleContext\<lparr>options := [], refs := exampleRefs\<lparr>popover := None\<rparr>\<rparr>), [])"
proof -
  let ?ev = "(plainEvent GetDerivedData)
        \<lparr>data := emptyPatch\<lparr>poptions := Some [],
                             prefs := Some (emptyRefsPatch\<lparr>ppopover := Some None\<rparr>)\<rparr>\<rparr>"
  let ?r = "send (exampleDOM (Some 10)) (Navigating, exampleContext) ?ev"
  have "etype ?ev = GetDerivedData" by (simp add: plainEvent_def)
  note f = getDerivedData_merges [OF this, of "exampleDOM (Some 10)" Navigating exampleContext]
  have "snd (fst ?r) = exampleContext\<lparr>options := [], refs := exampleRefs\<lparr>popover := None\<rparr>\<rparr>"
    using f by (simp add: example_defs emptyRefsPatch_def ListboxStateData.equality Refs.equality)
  moreover have "fst (fst ?r) = Navigating" "snd ?r = []"
    using f by simp_all
  ultimately show ?thesis
    by (simp add: prod_eq_iff)
qed

subsection \<open>What changes the committed value\<close>

lemma value_assign_simps:
  "value (clearNavigationValue d e) = value d"
  "value (clearTypeaheadQuery d e) = value d"
  "value (navigate d e) = value d"
  "value (navigateFromCurrentValue d e) = value d"
  "value (setTypeahead d e) = value d"
  "value (clearTypeahead d e) = value d"
  "value (setNavSelectionFromTypeahead d e) = value d"
  "value (getDerivedData d e) = spread (value d) (pvalue (data e))"
  by (simp_all add: action_defs Let_def)

lemma send_value_frame:
  assumes "etype event \<noteq> ValueChange"
    and "etype event = GetDerivedData \<longrightarrow> pvalue (data event) = None"
    and "s \<noteq> Idle \<longrightarrow>
           etype event = OptionFinishClick \<or> etype event = KeyDownEnter \<or>
           etype event = KeyDownSpace \<longrightarrow> navigationValue ctx = None \<or> disabled event"
    and "s = Idle \<longrightarrow> etype event \<noteq> UpdateAfterTypeahead"
  shows "value (snd (fst (send env (s, ctx) event))) = value ctx"
  using assms
  by (cases s; cases "etype event")
     (auto simp add: machine_defs value_assign_simps optionIsSelectable_def)

text \<open>
  C9.  When an event changes \<open>value\<close>, it is a ValueChange, or a selectable
  OptionFinishClick, KeyDownEnter or KeyDownSpace in an open state, or an
  UpdateAfterTypeahead in Idle, or a GetDerivedData whose payload carries a \<open>value\<close>
  field; every other event, in every state, leaves \<open>value\<close> as it is.  In particular
  ButtonMouseDown takes Idle to Navigating, KeyDownEscape takes it back to Idle, and
  \<open>value\<close> after the two is what it was before.
\<close>

theorem value_changed_only_explicitly:
  "(value (snd (fst (send env (s, ctx) event))) \<noteq> value ctx \<longrightarrow>
      etype event = ValueChange \<or>
      (s \<noteq> Idle \<and>
       (etype event = OptionFinishClick \<or> etype event = KeyDownEnter \<or>
        etype event = KeyDownSpace) \<and>
       navigationValue ctx \<noteq> None \<and> \<not> disabled event) \<or>
      (s = Idle \<and> etype event = UpdateAfterTypeahead) \<or>
      (etype event = GetDerivedData \<and> pvalue (data event) \<noteq> None)) \<and>
   (etype e1 = ButtonMouseDown \<longrightarrow> etype e2 = KeyDownEscape \<longrightarrow>
      fst (fst (send env1 (Idle, ctx) e1)) = Navigating \<and>
      fst (fst (sendAll (Idle, ctx) [(env1, e1), (env2, e2)])) = Idle \<and>
      value (snd (fst (sendAll (Idle, ctx) [(env1, e1), (env2, e2)]))) = value ctx)"
proof -
  have only: "etype event = ValueChange \<or>
      (s \<noteq> Idle \<and>
       (etype event = OptionFinishClick \<or> etype event = KeyDownEnter \<or>
        etype event = KeyDownSpace) \<and>
       navigationValue ctx \<noteq> None \<and> \<not> disabled event) \<or>
      (s = Idle \<and> etype event = UpdateAfterTypeahead) \<or>
      (etype event = GetDerivedData \<and> pvalue (data event) \<noteq> None)"
    if changed: "value (snd (fst (send env (s, ctx) event))) \<noteq> value ctx"
  proof (rule ccontr)
    assume no: "\<not> ?thesis"
    have "value (snd (fst (send env (s, ctx) event))) = value ctx"
      by (rule send_value_frame) (use no in blast)+
    with changed show False by simp
  qed
  have trip: "fst (fst (send env1 (Idle, ctx) e1)) = Navigating \<and>
      fst (fst (sendAll (Idle, ctx) [(env1, e1), (env2, e2)])) = Idle \<and>
      value (snd (fst (sendAll (Idle, ctx) [(env1, e1), (env2, e2)]))) = value ctx"
    if "etype e1 = ButtonMouseDown" "etype e2 = KeyDownEscape"
    using that by (simp add: machine_defs navigateFromCurrentValue_def)
  show ?thesis
    using only trip by blast
qed

text \<open>
  Opening with the button and closing with Escape keeps value 1, and so does hovering
  over Banana while the list is open.
\<close>

theorem value_changed_only_explicitly_witness:
  "fst (fst (send (exampleDOM (Some 1)) (Idle, exampleContext) (plainEvent ButtonMouseDown)))
     = Navigating \<and>
   fst (fst (sendAll (Idle, exampleContext)
               [(exampleDOM (Some 1), plainEvent ButtonMouseDown),
                (exampleDOM (Some 1), plainEvent KeyDownEscape)])) = Idle \<and>
   value (snd (fst (sendAll (Idle, exampleContext)
               [(exampleDOM (Some 1), plainEvent ButtonMouseDown),
                (exampleDOM (Some 1), plainEvent KeyDownEscape)]))) = Some 1 \<and>
   value (snd (fst (send (exampleDOM (Some 1)) (Navigating, exampleContext)
                     ((plainEvent Navigate)\<lparr>evalue := Some 2\<rparr>)))) = Some 1"
  using value_changed_only_explicitly
          [of "exampleDOM (Some 1)" Navigating exampleContext
              "(plainEvent Navigate)\<lparr>evalue := Some 2\<rparr>" "plainEvent ButtonMouseDown"
              "plainEvent KeyDownEscape" "exampleDOM (Some 1)" "exampleDOM (Some 1)"]
  by (simp add: example_defs)

text \<open>
  A GetDerivedData event whose payload has \<open>value: 7\<close> replaces the committed value 1,
  though it is none of the value-change events the claim lists.
\<close>

theorem getDerivedData_value_counterexample:
  "etype ((plainEvent GetDerivedData)\<lparr>data := emptyPatch\<lparr>pvalue := Some (Some 7)\<rparr>\<rparr>)
     = GetDerivedData \<and>
   value exampleContext = Some 1 \<and>
   send (exampleDOM (Some 1)) (Navigating, exampleContext)
        ((plainEvent GetDerivedData)\<lparr>data := emptyPatch\<lparr>pvalue := Some (Some 7)\<rparr>\<rparr>)
     = ((Navigating, exampleContext\<lparr>value := Some 7\<rparr>), [])"
  by (simp add: send_def states_GetDerivedData guardHolds_def assign_def spread_def
        getDerivedData_def emptyRefsPatch_def example_defs)

subsection \<open>The two ways of clearing the query\<close>

lemma states_ClearTypeahead:
  "states s ClearTypeahead =
     (if s = Interacting then None
      else Some [\<lparr>target = (if s = Idle then Some Idle else None),
                   actions = [assign clearTypeahead], cond = None\<rparr>])"
  by (cases s) (simp_all add: commonEvents_def openEvents_def)

text \<open>
  C10.  The action \<open>clearTypeahead\<close> sets the query to the empty string, the action
  \<open>clearTypeaheadQuery\<close> sets it to null.  In every state that declares a
  ClearTypeahead transition (Idle, Navigating, NavigatingWithKeys and Searching) the
  context after a ClearTypeahead event has the query \<open>""\<close>, not null, and the rest of
  the context is untouched; after a commit and after a Blur that closes the listbox the
  query is null.  Interacting declares no ClearTypeahead transition: there the event
  changes nothing, and a query that is null stays null.
\<close>

theorem clearTypeahead_is_empty_string:
  "(etype event = ClearTypeahead \<longrightarrow>
      (s \<noteq> Interacting \<longrightarrow>
         send env (s, ctx) event = ((s, ctx\<lparr>typeaheadQuery := Some []\<rparr>), []) \<and>
         typeaheadQuery (snd (fst (send env (s, ctx) event))) \<noteq> None) \<and>
      (s = Interacting \<longrightarrow> send env (s, ctx) event = ((s, ctx), []))) \<and>
   typeaheadQuery (clearTypeahead ctx event) = Some [] \<and>
   typeaheadQuery (clearTypeaheadQuery ctx event) = None \<and>
   (s \<noteq> Idle \<longrightarrow>
      (etype event = OptionFinishClick \<or> etype event = KeyDownEnter \<or>
       etype event = KeyDownSpace) \<longrightarrow> optionIsSelectable ctx event \<longrightarrow>
      typeaheadQuery (snd (fst (send env (s, ctx) event))) = None) \<and>
   (s \<noteq> Idle \<longrightarrow> etype event = Blur \<longrightarrow> listboxLostFocus env ctx event \<longrightarrow>
      typeaheadQuery (snd (fst (send env (s, ctx) event))) = None)"
proof -
  have a: "send env (s, ctx) event = ((s, ctx\<lparr>typeaheadQuery := Some []\<rparr>), [])"
    if "etype event = ClearTypeahead" "s \<noteq> Interacting"
    using that
    by (simp add: send_def states_ClearTypeahead guardHolds_def assign_def spread_def
          clearTypeahead_def)
  have b: "send env (s, ctx) event = ((s, ctx), [])"
    if "etype event = ClearTypeahead" "s = Interacting"
    using that by (simp add: send_def states_ClearTypeahead)
  have c: "typeaheadQuery (snd (fst (send env (s, ctx) event))) = None"
    if "s \<noteq> Idle" "etype event = OptionFinishClick \<or> etype event = KeyDownEnter \<or>
       etype event = KeyDownSpace" "optionIsSelectable ctx event"
    using that by (simp add: send_commit)
  have d: "typeaheadQuery (snd (fst (send env (s, ctx) event))) = None"
    if "s \<noteq> Idle" "etype event = Blur" "listboxLostFocus env ctx event"
    using that by (simp add: send_blur)
  show ?thesis
    using a b c d by (simp add: clearTypeahead_def clearTypeaheadQuery_def)
qed

text \<open>
  ClearTypeahead in Idle leaves the empty string; a Blur to element 99 and an Enter on
  the highlighted option leave null.
\<close>

theorem clearTypeahead_is_empty_string_witness:
  "send (exampleDOM (Some 1)) (Idle, exampleContext) (plainEvent ClearTypeahead)
     = ((Idle, exampleContext\<lparr>typeaheadQuery := Some []\<rparr>), []) \<and>
   typeaheadQuery
     (snd (fst (send (exampleDOM (Some 99)) (NavigatingWithKeys, exampleContext)
                  ((plainEvent Blur)\<lparr>relatedTarget := Some 99\<rparr>)))) = None \<and>
   typeaheadQuery
     (snd (fst (send (exampleDOM (Some 10)) (Navigating, exampleContext)
                  ((plainEvent KeyDownEnter)\<lparr>evalue := Some 1\<rparr>)))) = None"
  using clearTypeahead_is_empty_string
          [of "plainEvent ClearTypeahead" Idle "exampleDOM (Some 1)" exampleContext]
        clearTypeahead_is_empty_string
          [of "(plainEvent Blur)\<lparr>relatedTarget := Some 99\<rparr>" NavigatingWithKeys
              "exampleDOM (Some 99)" exampleContext]
        clearTypeahead_is_empty_string
          [of "(plainEvent KeyDownEnter)\<lparr>evalue := Some 1\<rparr>" Navigating
              "exampleDOM (Some 10)" exampleContext]
  by (simp add: example_defs listboxLostFocus_def ownerDocumentOr_def optionIsSelectable_def)

text \<open>
  A fresh machine with value 1 is opened with the button, a Blur arrives while the list
  has the focus and no option is registered, and the machine is in Interacting with the
  query null; the ClearTypeahead that follows leaves the query null, not \<open>""\<close>.  The
  same holds for any context in Interacting.
\<close>

theorem clearTypeahead_interacting_counterexample:
  "sendAll (createListboxMachine (Some 1))
     [(exampleDOM (Some 1), plainEvent ButtonMouseDown),
      (exampleDOM (Some 3), plainEvent Blur),
      (exampleDOM (Some 3), plainEvent ClearTypeahead)]
   = ((Interacting,
       \<lparr>value = Some 1,
        refs = \<lparr>button = None, input = None, list = None, popover = None\<rparr>,
        options = [], navigationValue = Some 1, typeaheadQuery = None\<rparr>),
      [Focus 1]) \<and>
   send (exampleDOM (Some 10)) (Interacting, exampleContext\<lparr>typeaheadQuery := None\<rparr>)
        (plainEvent ClearTypeahead)
     = ((Interacting, exampleContext\<lparr>typeaheadQuery := None\<rparr>), [])"
  by (simp add: createListboxMachine_def machine_defs action_defs listboxLostFocus_def
        optionIsActive_def ownerDocumentOr_def example_defs)

end
